theory Spec2Isabelle
  imports Main "HOL-Library.Word"
begin

chapter \<open>Flight SQL: column metadata, result-set schemas, server dispatcher and client\<close>

text \<open>
  A shallow embedding of \<^verbatim>\<open>cpp/src/arrow/flight/sql/column_metadata.cc\<close> and
  \<^verbatim>\<open>cpp/src/arrow/flight/flight-sql/server.cpp\<close>, with the helper
  \<^verbatim>\<open>getDescriptor\<close> and the mocks of \<^verbatim>\<open>client_test.cc\<close>. The client that the
  tests drive (client.cc) is not among the sources: the operations of it that are
  studied here follow the specification, and say so. C++ \<^verbatim>\<open>std::string\<close> is
  \<^typ>\<open>string\<close> (a list of bytes).
\<close>

section \<open>Column metadata (column\_metadata.cc)\<close>

text \<open>
  Modelled from the spec: \<^verbatim>\<open>arrow::KeyValueMetadata\<close> (key\_value\_metadata.cc is not
  among the sources). The spec calls it "auxiliary key/value metadata" attached to a
  column: an ordered sequence of key/value pairs, to which \<^verbatim>\<open>Append\<close> adds one pair at
  the end.
\<close>

type_synonym KeyValueMetadata = "(string \<times> string) list"

definition Append :: "KeyValueMetadata \<Rightarrow> string \<Rightarrow> string \<Rightarrow> KeyValueMetadata" where
  "Append m key val = m @ [(key, val)]"

definition CATALOG_NAME :: string where "CATALOG_NAME = ''CATALOG_NAME''"
definition SCHEMA_NAME :: string where "SCHEMA_NAME = ''SCHEMA_NAME''"
definition TABLE_NAME :: string where "TABLE_NAME = ''TABLE_NAME''"
definition PRECISION :: string where "PRECISION = ''PRECISION''"
definition SCALE :: string where "SCALE = ''SCALE''"
definition IS_AUTO_INCREMENT :: string where "IS_AUTO_INCREMENT = ''IS_AUTO_INCREMENT''"
definition IS_CASE_SENSITIVE :: string where "IS_CASE_SENSITIVE = ''IS_CASE_SENSITIVE''"
definition IS_READ_ONLY :: string where "IS_READ_ONLY = ''IS_READ_ONLY''"
definition IS_SEARCHABLE :: string where "IS_SEARCHABLE = ''IS_SEARCHABLE''"
definition BOOLEAN_TRUE_STR :: string where "BOOLEAN_TRUE_STR = ''YES''"
definition BOOLEAN_FALSE_STR :: string where "BOOLEAN_FALSE_STR = ''NO''"

text \<open>
  \<^verbatim>\<open>ColumnMetadata\<close> owns the map (member \<^verbatim>\<open>metadata_map_\<close>); the builder owns a
  \<^verbatim>\<open>ColumnMetadata\<close> (member \<^verbatim>\<open>column_metadata_\<close>). Every setter
  mutates the map behind \<^verbatim>\<open>GetMetadataMap()\<close> and returns \<^verbatim>\<open>*this\<close>: here it returns
  the updated builder.
\<close>

record ColumnMetadata =
  metadata_map :: KeyValueMetadata

record ColumnMetadataBuilder =
  column_metadata :: ColumnMetadata

definition ColumnMetadata_new :: ColumnMetadata where
  "ColumnMetadata_new = \<lparr>metadata_map = []\<rparr>"

definition ColumnMetadataBuilder_new :: ColumnMetadataBuilder where
  "ColumnMetadataBuilder_new = \<lparr>column_metadata = ColumnMetadata_new\<rparr>"

definition Create :: ColumnMetadataBuilder where
  "Create = ColumnMetadataBuilder_new"

definition GetMetadataMap :: "ColumnMetadata \<Rightarrow> KeyValueMetadata" where
  "GetMetadataMap cm = metadata_map cm"

definition append_metadata :: "ColumnMetadataBuilder \<Rightarrow> string \<Rightarrow> string \<Rightarrow> ColumnMetadataBuilder" where
  \<comment> \<open>\<^verbatim>\<open>column_metadata_.GetMetadataMap()->Append(key, value); return *this;\<close>\<close>
  "append_metadata builder key val =
     builder\<lparr>column_metadata :=
       (column_metadata builder)\<lparr>metadata_map :=
         Append (GetMetadataMap (column_metadata builder)) key val\<rparr>\<rparr>"

definition BooleanToString :: "bool \<Rightarrow> string" where
  "BooleanToString boolean_value =
     (if boolean_value then BOOLEAN_TRUE_STR else BOOLEAN_FALSE_STR)"

definition CatalogName :: "string \<Rightarrow> ColumnMetadataBuilder \<Rightarrow> ColumnMetadataBuilder" where
  "CatalogName catalog_name builder = append_metadata builder CATALOG_NAME catalog_name"

definition SchemaName :: "string \<Rightarrow> ColumnMetadataBuilder \<Rightarrow> ColumnMetadataBuilder" where
  "SchemaName schema_name builder = append_metadata builder SCHEMA_NAME schema_name"

definition TableName :: "string \<Rightarrow> ColumnMetadataBuilder \<Rightarrow> ColumnMetadataBuilder" where
  "TableName table_name builder = append_metadata builder TABLE_NAME table_name"

definition IsAutoIncrement :: "bool \<Rightarrow> ColumnMetadataBuilder \<Rightarrow> ColumnMetadataBuilder" where
  "IsAutoIncrement is_auto_increment builder =
     append_metadata builder IS_AUTO_INCREMENT (BooleanToString is_auto_increment)"

definition IsCaseSensitive :: "bool \<Rightarrow> ColumnMetadataBuilder \<Rightarrow> ColumnMetadataBuilder" where
  "IsCaseSensitive is_case_sensitive builder =
     append_metadata builder IS_CASE_SENSITIVE (BooleanToString is_case_sensitive)"

definition IsReadOnly :: "bool \<Rightarrow> ColumnMetadataBuilder \<Rightarrow> ColumnMetadataBuilder" where
  "IsReadOnly is_read_only builder =
     append_metadata builder IS_READ_ONLY (BooleanToString is_read_only)"

definition IsSearchable :: "bool \<Rightarrow> ColumnMetadataBuilder \<Rightarrow> ColumnMetadataBuilder" where
  "IsSearchable is_searchable builder =
     append_metadata builder IS_SEARCHABLE (BooleanToString is_searchable)"

section \<open>Result-set schemas (server.cpp, SqlSchema)\<close>

datatype DataType = utf8 | binary | int32 | int64 | uint8

record Field =
  field_name :: string
  field_type :: DataType
  field_nullable :: bool

type_synonym Schema = "Field list"

definition field :: "string \<Rightarrow> DataType \<Rightarrow> bool \<Rightarrow> Field" where
  "field n t nullable = \<lparr>field_name = n, field_type = t, field_nullable = nullable\<rparr>"

text \<open>
  Modelled from the spec: the default of the third parameter of \<^verbatim>\<open>arrow::field\<close>
  (declared in type\_fwd.h, not among the sources). The spec's table says of the
  two-argument calls "all nullable by default".
\<close>

definition nullable_default :: bool where
  "nullable_default = True"

definition GetCatalogsSchema :: Schema where
  "GetCatalogsSchema = [field ''catalog_name'' utf8 nullable_default]"

definition GetSchemasSchema :: Schema where
  "GetSchemasSchema =
     [field ''catalog_name'' utf8 nullable_default, field ''schema_name'' utf8 False]"

definition GetTablesSchema :: Schema where
  "GetTablesSchema =
     [field ''catalog_name'' utf8 nullable_default, field ''schema_name'' utf8 nullable_default,
      field ''table_name'' utf8 nullable_default, field ''table_type'' utf8 nullable_default]"

definition GetTablesSchemaWithIncludedSchema :: Schema where
  "GetTablesSchemaWithIncludedSchema =
     [field ''catalog_name'' utf8 nullable_default, field ''schema_name'' utf8 nullable_default,
      field ''table_name'' utf8 nullable_default, field ''table_type'' utf8 nullable_default,
      field ''table_schema'' binary nullable_default]"

definition GetTableTypesSchema :: Schema where
  "GetTableTypesSchema = [field ''table_type'' utf8 nullable_default]"

definition GetPrimaryKeysSchema :: Schema where
  "GetPrimaryKeysSchema =
     [field ''catalog_name'' utf8 nullable_default, field ''schema_name'' utf8 nullable_default,
      field ''table_name'' utf8 nullable_default, field ''column_name'' utf8 nullable_default,
      field ''key_sequence'' int64 nullable_default, field ''key_name'' utf8 nullable_default]"

definition GetImportedAndExportedKeysSchema :: Schema where
  "GetImportedAndExportedKeysSchema =
     [field ''pk_catalog_name'' utf8 True, field ''pk_schema_name'' utf8 True,
      field ''pk_table_name'' utf8 False, field ''pk_column_name'' utf8 False,
      field ''fk_catalog_name'' utf8 True, field ''fk_schema_name'' utf8 True,
      field ''fk_table_name'' utf8 False, field ''fk_column_name'' utf8 False,
      field ''key_sequence'' int32 False, field ''fk_key_name'' utf8 True,
      field ''pk_key_name'' utf8 True, field ''update_rule'' uint8 False,
      field ''delete_rule'' uint8 False]"

text \<open>A column as the spec's table lists it: name, type, nullability.\<close>

definition column :: "Field \<Rightarrow> string \<times> DataType \<times> bool" where
  "column f = (field_name f, field_type f, field_nullable f)"

section \<open>The server dispatcher (server.cpp, FlightSqlServerBase)\<close>

datatype Status = OK | Invalid string | NotImplemented string

text \<open>
  The protobuf messages that the sources name (\<^verbatim>\<open>pb::sql::...\<close>, with
  \<^verbatim>\<open>pb = arrow::flight::protocol\<close>).
\<close>

datatype MessageType =
    CommandStatementQuery
  | CommandPreparedStatementQuery
  | CommandStatementUpdate
  | CommandGetCatalogs
  | CommandGetSchemas
  | CommandGetTables
  | CommandGetTableTypes
  | CommandGetSqlInfo
  | CommandGetPrimaryKeys
  | CommandGetExportedKeys
  | CommandGetImportedKeys
  | CommandGetCrossReference
  | TicketStatementQuery
  | ActionCreatePreparedStatementRequest
  | ActionClosePreparedStatementRequest
  | ActionCreatePreparedStatementResult
  | DoPutUpdateResult

fun FullMessageName :: "MessageType \<Rightarrow> string" where
  "FullMessageName CommandStatementQuery = ''arrow.flight.protocol.sql.CommandStatementQuery''"
| "FullMessageName CommandPreparedStatementQuery = ''arrow.flight.protocol.sql.CommandPreparedStatementQuery''"
| "FullMessageName CommandStatementUpdate = ''arrow.flight.protocol.sql.CommandStatementUpdate''"
| "FullMessageName CommandGetCatalogs = ''arrow.flight.protocol.sql.CommandGetCatalogs''"
| "FullMessageName CommandGetSchemas = ''arrow.flight.protocol.sql.CommandGetSchemas''"
| "FullMessageName CommandGetTables = ''arrow.flight.protocol.sql.CommandGetTables''"
| "FullMessageName CommandGetTableTypes = ''arrow.flight.protocol.sql.CommandGetTableTypes''"
| "FullMessageName CommandGetSqlInfo = ''arrow.flight.protocol.sql.CommandGetSqlInfo''"
| "FullMessageName CommandGetPrimaryKeys = ''arrow.flight.protocol.sql.CommandGetPrimaryKeys''"
| "FullMessageName CommandGetExportedKeys = ''arrow.flight.protocol.sql.CommandGetExportedKeys''"
| "FullMessageName CommandGetImportedKeys = ''arrow.flight.protocol.sql.CommandGetImportedKeys''"
| "FullMessageName CommandGetCrossReference = ''arrow.flight.protocol.sql.CommandGetCrossReference''"
| "FullMessageName TicketStatementQuery = ''arrow.flight.protocol.sql.TicketStatementQuery''"
| "FullMessageName ActionCreatePreparedStatementRequest = ''arrow.flight.protocol.sql.ActionCreatePreparedStatementRequest''"
| "FullMessageName ActionClosePreparedStatementRequest = ''arrow.flight.protocol.sql.ActionClosePreparedStatementRequest''"
| "FullMessageName ActionCreatePreparedStatementResult = ''arrow.flight.protocol.sql.ActionCreatePreparedStatementResult''"
| "FullMessageName DoPutUpdateResult = ''arrow.flight.protocol.sql.DoPutUpdateResult''"

text \<open>
  Modelled from the spec: \<^verbatim>\<open>google::protobuf::Any\<close> (the protobuf library is not among the
  sources). The spec's Envelope is "{type tag (stable string identifier of the command's
  schema), payload (serialized command)}"; \<^verbatim>\<open>Is<T>()\<close> holds when the tag is the one of
  \<^verbatim>\<open>T\<close>. The bytes of a descriptor, ticket or action body are kept in the form that
  \<^verbatim>\<open>ParseFromArray\<close> leaves in the \<^verbatim>\<open>Any\<close>: the tag and the payload (after a failed
  parse, whatever it left there; the sources ignore its result).
\<close>

record Any =
  type_tag :: string
  any_value :: string

definition Is :: "Any \<Rightarrow> MessageType \<Rightarrow> bool" where
  "Is any T = (type_tag any = FullMessageName T)"

text \<open>
  The message that \<^verbatim>\<open>any.UnpackTo(&command)\<close> leaves in \<^verbatim>\<open>command\<close>: protobuf's
  parser is not among the sources, so a decoded message is represented by its type and
  the envelope it was read from.
\<close>

datatype Command = UnpackTo MessageType Any

datatype ServerCallContext = ServerCallContext string

record FlightDescriptor =
  cmd :: Any

record Ticket =
  ticket :: Any

record FlightMessageReader =
  descriptor :: FlightDescriptor

record Action =
  type :: string
  body :: Any

text \<open>
  Modelled from the spec: the two \<^verbatim>\<open>ActionType\<close> constants of server.h (not among the
  sources). The spec fixes their type names: "CreatePreparedStatement" and
  "ClosePreparedStatement".
\<close>

definition FLIGHT_SQL_CREATE_PREPARED_STATEMENT :: string where
  "FLIGHT_SQL_CREATE_PREPARED_STATEMENT = ''CreatePreparedStatement''"

definition FLIGHT_SQL_CLOSE_PREPARED_STATEMENT :: string where
  "FLIGHT_SQL_CLOSE_PREPARED_STATEMENT = ''ClosePreparedStatement''"

text \<open>
  The command-specific handlers are virtual methods that a backend overrides. A call of
  one is recorded as a value holding the handler and the arguments it is given (the
  output pointers \<^verbatim>\<open>info\<close>, \<^verbatim>\<open>stream\<close>, \<^verbatim>\<open>result\<close> and the metadata writer carry
  nothing in). A server is the function from such a call to what the handler returns: a
  status, and what it stored through its output pointer, if anything.
\<close>

datatype HandlerCall =
    Call_GetFlightInfoStatement Command ServerCallContext FlightDescriptor
  | Call_GetFlightInfoPreparedStatement Command ServerCallContext FlightDescriptor
  | Call_GetFlightInfoCatalogs ServerCallContext FlightDescriptor
  | Call_GetFlightInfoSchemas Command ServerCallContext FlightDescriptor
  | Call_GetFlightInfoTables Command ServerCallContext FlightDescriptor
  | Call_GetFlightInfoTableTypes ServerCallContext FlightDescriptor
  | Call_GetFlightInfoSqlInfo Command ServerCallContext FlightDescriptor
  | Call_GetFlightInfoPrimaryKeys Command ServerCallContext FlightDescriptor
  | Call_GetFlightInfoExportedKeys Command ServerCallContext FlightDescriptor
  | Call_GetFlightInfoImportedKeys Command ServerCallContext FlightDescriptor
  | Call_DoGetStatement Command ServerCallContext
  | Call_DoGetPreparedStatement Command ServerCallContext
  | Call_DoGetCatalogs ServerCallContext
  | Call_DoGetSchemas Command ServerCallContext
  | Call_DoGetTables Command ServerCallContext
  | Call_DoGetTableTypes ServerCallContext
  | Call_DoGetSqlInfo Command ServerCallContext
  | Call_DoGetPrimaryKeys Command ServerCallContext
  | Call_DoGetExportedKeys Command ServerCallContext
  | Call_DoGetImportedKeys Command ServerCallContext
  | Call_DoPutCommandStatementUpdate Command ServerCallContext FlightMessageReader
  | Call_DoPutPreparedStatement Command ServerCallContext FlightMessageReader
  | Call_CreatePreparedStatement Command ServerCallContext
  | Call_ClosePreparedStatement Command ServerCallContext

type_synonym 'o Handlers = "HandlerCall \<Rightarrow> Status \<times> 'o option"

text \<open>What serving one request does: the handler calls made, in order, and the result.\<close>

type_synonym 'o Served = "HandlerCall list \<times> Status \<times> 'o option"

definition invoke :: "'o Handlers \<Rightarrow> HandlerCall \<Rightarrow> 'o Served" where
  \<comment> \<open>\<^verbatim>\<open>return Handler(...);\<close>\<close>
  "invoke impl c = ([c], impl c)"

definition GetFlightInfo :: "'o Handlers \<Rightarrow> ServerCallContext \<Rightarrow> FlightDescriptor \<Rightarrow> 'o Served" where
  "GetFlightInfo impl context request =
     (let any = cmd request in
      if Is any CommandStatementQuery then
        invoke impl (Call_GetFlightInfoStatement (UnpackTo CommandStatementQuery any) context request)
      else if Is any CommandPreparedStatementQuery then
        invoke impl (Call_GetFlightInfoPreparedStatement (UnpackTo CommandPreparedStatementQuery any) context request)
      else if Is any CommandGetCatalogs then
        invoke impl (Call_GetFlightInfoCatalogs context request)
      else if Is any CommandGetSchemas then
        invoke impl (Call_GetFlightInfoSchemas (UnpackTo CommandGetSchemas any) context request)
      else if Is any CommandGetTables then
        invoke impl (Call_GetFlightInfoTables (UnpackTo CommandGetTables any) context request)
      else if Is any CommandGetTableTypes then
        invoke impl (Call_GetFlightInfoTableTypes context request)
      else if Is any CommandGetSqlInfo then
        invoke impl (Call_GetFlightInfoSqlInfo (UnpackTo CommandGetSqlInfo any) context request)
      else if Is any CommandGetPrimaryKeys then
        invoke impl (Call_GetFlightInfoPrimaryKeys (UnpackTo CommandGetPrimaryKeys any) context request)
      else if Is any CommandGetExportedKeys then
        invoke impl (Call_GetFlightInfoExportedKeys (UnpackTo CommandGetExportedKeys any) context request)
      else if Is any CommandGetImportedKeys then
        invoke impl (Call_GetFlightInfoImportedKeys (UnpackTo CommandGetImportedKeys any) context request)
      else ([], Invalid ''The defined request is invalid.'', None))"

definition DoGet :: "'o Handlers \<Rightarrow> ServerCallContext \<Rightarrow> Ticket \<Rightarrow> 'o Served" where
  "DoGet impl context request =
     (let anyCommand = ticket request in
      if Is anyCommand TicketStatementQuery then
        invoke impl (Call_DoGetStatement (UnpackTo TicketStatementQuery anyCommand) context)
      else if Is anyCommand CommandPreparedStatementQuery then
        invoke impl (Call_DoGetPreparedStatement (UnpackTo CommandPreparedStatementQuery anyCommand) context)
      else if Is anyCommand CommandGetCatalogs then
        invoke impl (Call_DoGetCatalogs context)
      else if Is anyCommand CommandGetSchemas then
        invoke impl (Call_DoGetSchemas (UnpackTo CommandGetSchemas anyCommand) context)
      else if Is anyCommand CommandGetTables then
        invoke impl (Call_DoGetTables (UnpackTo CommandGetTables anyCommand) context)
      else if Is anyCommand CommandGetTableTypes then
        invoke impl (Call_DoGetTableTypes context)
      else if Is anyCommand CommandGetSqlInfo then
        invoke impl (Call_DoGetSqlInfo (UnpackTo CommandGetSqlInfo anyCommand) context)
      else if Is anyCommand CommandGetPrimaryKeys then
        invoke impl (Call_DoGetPrimaryKeys (UnpackTo CommandGetPrimaryKeys anyCommand) context)
      else if Is anyCommand CommandGetExportedKeys then
        invoke impl (Call_DoGetExportedKeys (UnpackTo CommandGetExportedKeys anyCommand) context)
      else if Is anyCommand CommandGetImportedKeys then
        invoke impl (Call_DoGetImportedKeys (UnpackTo CommandGetImportedKeys anyCommand) context)
      else ([], Invalid ''The defined request is invalid.'', None))"

definition DoPut :: "'o Handlers \<Rightarrow> ServerCallContext \<Rightarrow> FlightMessageReader \<Rightarrow> 'o Served" where
  "DoPut impl context reader =
     (let request = descriptor reader; any = cmd request in
      if Is any CommandStatementUpdate then
        invoke impl (Call_DoPutCommandStatementUpdate (UnpackTo CommandStatementUpdate any) context reader)
      else if Is any CommandPreparedStatementQuery then
        invoke impl (Call_DoPutPreparedStatement (UnpackTo CommandPreparedStatementQuery any) context reader)
      else ([], Invalid ''The defined request is invalid.'', None))"

definition ListActions :: "ServerCallContext \<Rightarrow> Status \<times> string list" where
  "ListActions context =
     (OK, [FLIGHT_SQL_CREATE_PREPARED_STATEMENT, FLIGHT_SQL_CLOSE_PREPARED_STATEMENT])"

definition DoAction :: "'o Handlers \<Rightarrow> ServerCallContext \<Rightarrow> Action \<Rightarrow> 'o Served" where
  "DoAction impl context action =
     (if type action = FLIGHT_SQL_CREATE_PREPARED_STATEMENT then
        (let anyCommand = body action in
         invoke impl (Call_CreatePreparedStatement
           (UnpackTo ActionCreatePreparedStatementRequest anyCommand) context))
      else if type action = FLIGHT_SQL_CLOSE_PREPARED_STATEMENT then
        (let anyCommand = body action in
         invoke impl (Call_ClosePreparedStatement
           (UnpackTo ActionClosePreparedStatementRequest anyCommand) context))
      else ([], Invalid ''The defined request is invalid.'', None))"

subsection \<open>The default handlers\<close>

definition GetFlightInfoCatalogs :: "ServerCallContext \<Rightarrow> FlightDescriptor \<Rightarrow> Status \<times> 'o option" where
  "GetFlightInfoCatalogs context flight_descriptor =
     (NotImplemented ''GetFlightInfoCatalogs not implemented'', None)"

definition DoGetCatalogs :: "ServerCallContext \<Rightarrow> Status \<times> 'o option" where
  "DoGetCatalogs context =
     (NotImplemented ''DoGetCatalogs not implemented'', None)"

definition GetFlightInfoStatement :: "Command \<Rightarrow> ServerCallContext \<Rightarrow> FlightDescriptor \<Rightarrow> Status \<times> 'o option" where
  "GetFlightInfoStatement command context flight_descriptor =
     (NotImplemented ''GetFlightInfoStatement not implemented'', None)"

definition DoGetStatement :: "Command \<Rightarrow> ServerCallContext \<Rightarrow> Status \<times> 'o option" where
  "DoGetStatement command context =
     (NotImplemented ''DoGetStatement not implemented'', None)"

definition GetFlightInfoPreparedStatement :: "Command \<Rightarrow> ServerCallContext \<Rightarrow> FlightDescriptor \<Rightarrow> Status \<times> 'o option" where
  "GetFlightInfoPreparedStatement command context flight_descriptor =
     (NotImplemented ''GetFlightInfoPreparedStatement not implemented'', None)"

definition DoGetPreparedStatement :: "Command \<Rightarrow> ServerCallContext \<Rightarrow> Status \<times> 'o option" where
  "DoGetPreparedStatement command context =
     (NotImplemented ''DoGetPreparedStatement not implemented'', None)"

definition GetFlightInfoSqlInfo :: "Command \<Rightarrow> ServerCallContext \<Rightarrow> FlightDescriptor \<Rightarrow> Status \<times> 'o option" where
  "GetFlightInfoSqlInfo command context flight_descriptor =
     (NotImplemented ''GetFlightInfoSqlInfo not implemented'', None)"

definition DoGetSqlInfo :: "Command \<Rightarrow> ServerCallContext \<Rightarrow> Status \<times> 'o option" where
  "DoGetSqlInfo command context =
     (NotImplemented ''DoGetSqlInfo not implemented'', None)"

definition GetFlightInfoSchemas :: "Command \<Rightarrow> ServerCallContext \<Rightarrow> FlightDescriptor \<Rightarrow> Status \<times> 'o option" where
  "GetFlightInfoSchemas command context flight_descriptor =
     (NotImplemented ''GetFlightInfoSchemas not implemented'', None)"

definition DoGetSchemas :: "Command \<Rightarrow> ServerCallContext \<Rightarrow> Status \<times> 'o option" where
  "DoGetSchemas command context =
     (NotImplemented ''DoGetSchemas not implemented'', None)"

definition GetFlightInfoTables :: "Command \<Rightarrow> ServerCallContext \<Rightarrow> FlightDescriptor \<Rightarrow> Status \<times> 'o option" where
  "GetFlightInfoTables command context flight_descriptor =
     (NotImplemented ''GetFlightInfoTables not implemented'', None)"

definition DoGetTables :: "Command \<Rightarrow> ServerCallContext \<Rightarrow> Status \<times> 'o option" where
  "DoGetTables command context =
     (NotImplemented ''DoGetTables not implemented'', None)"

definition GetFlightInfoTableTypes :: "ServerCallContext \<Rightarrow> FlightDescriptor \<Rightarrow> Status \<times> 'o option" where
  "GetFlightInfoTableTypes context flight_descriptor =
     (NotImplemented ''GetFlightInfoTableTypes not implemented'', None)"

definition DoGetTableTypes :: "ServerCallContext \<Rightarrow> Status \<times> 'o option" where
  "DoGetTableTypes context =
     (NotImplemented ''DoGetTableTypes not implemented'', None)"

definition GetFlightInfoPrimaryKeys :: "Command \<Rightarrow> ServerCallContext \<Rightarrow> FlightDescriptor \<Rightarrow> Status \<times> 'o option" where
  "GetFlightInfoPrimaryKeys command context flight_descriptor =
     (NotImplemented ''GetFlightInfoPrimaryKeys not implemented'', None)"

definition DoGetPrimaryKeys :: "Command \<Rightarrow> ServerCallContext \<Rightarrow> Status \<times> 'o option" where
  "DoGetPrimaryKeys command context =
     (NotImplemented ''DoGetPrimaryKeys not implemented'', None)"

definition GetFlightInfoExportedKeys :: "Command \<Rightarrow> ServerCallContext \<Rightarrow> FlightDescriptor \<Rightarrow> Status \<times> 'o option" where
  "GetFlightInfoExportedKeys command context flight_descriptor =
     (NotImplemented ''GetFlightInfoExportedKeys not implemented'', None)"

definition DoGetExportedKeys :: "Command \<Rightarrow> ServerCallContext \<Rightarrow> Status \<times> 'o option" where
  "DoGetExportedKeys command context =
     (NotImplemented ''DoGetExportedKeys not implemented'', None)"

definition GetFlightInfoImportedKeys :: "Command \<Rightarrow> ServerCallContext \<Rightarrow> FlightDescriptor \<Rightarrow> Status \<times> 'o option" where
  "GetFlightInfoImportedKeys command context flight_descriptor =
     (NotImplemented ''GetFlightInfoImportedKeys not implemented'', None)"

definition DoGetImportedKeys :: "Command \<Rightarrow> ServerCallContext \<Rightarrow> Status \<times> 'o option" where
  "DoGetImportedKeys command context =
     (NotImplemented ''DoGetImportedKeys not implemented'', None)"

definition CreatePreparedStatement :: "Command \<Rightarrow> ServerCallContext \<Rightarrow> Status \<times> 'o option" where
  "CreatePreparedStatement request context =
     (NotImplemented ''CreatePreparedStatement not implemented'', None)"

definition ClosePreparedStatement :: "Command \<Rightarrow> ServerCallContext \<Rightarrow> Status \<times> 'o option" where
  "ClosePreparedStatement request context =
     (NotImplemented ''ClosePreparedStatement not implemented'', None)"

definition DoPutPreparedStatement :: "Command \<Rightarrow> ServerCallContext \<Rightarrow> FlightMessageReader \<Rightarrow> Status \<times> 'o option" where
  "DoPutPreparedStatement command context reader =
     (NotImplemented ''DoPutPreparedStatement not implemented'', None)"

definition DoPutCommandStatementUpdate :: "Command \<Rightarrow> ServerCallContext \<Rightarrow> FlightMessageReader \<Rightarrow> Status \<times> 'o option" where
  "DoPutCommandStatementUpdate command context reader =
     (NotImplemented ''DoPutCommandStatementUpdate not implemented'', None)"

text \<open>The base class with no method overridden.\<close>

fun FlightSqlServerBase :: "'o Handlers" where
  "FlightSqlServerBase (Call_GetFlightInfoStatement command context flight_descriptor) =
     GetFlightInfoStatement command context flight_descriptor"
| "FlightSqlServerBase (Call_GetFlightInfoPreparedStatement command context flight_descriptor) =
     GetFlightInfoPreparedStatement command context flight_descriptor"
| "FlightSqlServerBase (Call_GetFlightInfoCatalogs context flight_descriptor) =
     GetFlightInfoCatalogs context flight_descriptor"
| "FlightSqlServerBase (Call_GetFlightInfoSchemas command context flight_descriptor) =
     GetFlightInfoSchemas command context flight_descriptor"
| "FlightSqlServerBase (Call_GetFlightInfoTables command context flight_descriptor) =
     GetFlightInfoTables command context flight_descriptor"
| "FlightSqlServerBase (Call_GetFlightInfoTableTypes context flight_descriptor) =
     GetFlightInfoTableTypes context flight_descriptor"
| "FlightSqlServerBase (Call_GetFlightInfoSqlInfo command context flight_descriptor) =
     GetFlightInfoSqlInfo command context flight_descriptor"
| "FlightSqlServerBase (Call_GetFlightInfoPrimaryKeys command context flight_descriptor) =
     GetFlightInfoPrimaryKeys command context flight_descriptor"
| "FlightSqlServerBase (Call_GetFlightInfoExportedKeys command context flight_descriptor) =
     GetFlightInfoExportedKeys command context flight_descriptor"
| "FlightSqlServerBase (Call_GetFlightInfoImportedKeys command context flight_descriptor) =
     GetFlightInfoImportedKeys command context flight_descriptor"
| "FlightSqlServerBase (Call_DoGetStatement command context) =
     DoGetStatement command context"
| "FlightSqlServerBase (Call_DoGetPreparedStatement command context) =
     DoGetPreparedStatement command context"
| "FlightSqlServerBase (Call_DoGetCatalogs context) =
     DoGetCatalogs context"
| "FlightSqlServerBase (Call_DoGetSchemas command context) =
     DoGetSchemas command context"
| "FlightSqlServerBase (Call_DoGetTables command context) =
     DoGetTables command context"
| "FlightSqlServerBase (Call_DoGetTableTypes context) =
     DoGetTableTypes context"
| "FlightSqlServerBase (Call_DoGetSqlInfo command context) =
     DoGetSqlInfo command context"
| "FlightSqlServerBase (Call_DoGetPrimaryKeys command context) =
     DoGetPrimaryKeys command context"
| "FlightSqlServerBase (Call_DoGetExportedKeys command context) =
     DoGetExportedKeys command context"
| "FlightSqlServerBase (Call_DoGetImportedKeys command context) =
     DoGetImportedKeys command context"
| "FlightSqlServerBase (Call_DoPutCommandStatementUpdate command context reader) =
     DoPutCommandStatementUpdate command context reader"
| "FlightSqlServerBase (Call_DoPutPreparedStatement command context reader) =
     DoPutPreparedStatement command context reader"
| "FlightSqlServerBase (Call_CreatePreparedStatement request context) =
     CreatePreparedStatement request context"
| "FlightSqlServerBase (Call_ClosePreparedStatement request context) =
     ClosePreparedStatement request context"

subsection \<open>Requests, entry points and handlers by name\<close>

datatype EntryPoint = EP_GetFlightInfo | EP_DoGet | EP_DoPut | EP_DoAction

datatype Request =
    GetFlightInfo_request ServerCallContext FlightDescriptor
  | DoGet_request ServerCallContext Ticket
  | DoPut_request ServerCallContext FlightMessageReader
  | DoAction_request ServerCallContext Action

fun serve :: "'o Handlers \<Rightarrow> Request \<Rightarrow> 'o Served" where
  "serve impl (GetFlightInfo_request context request) = GetFlightInfo impl context request"
| "serve impl (DoGet_request context request) = DoGet impl context request"
| "serve impl (DoPut_request context reader) = DoPut impl context reader"
| "serve impl (DoAction_request context action) = DoAction impl context action"

fun entry_point :: "Request \<Rightarrow> EntryPoint" where
  "entry_point (GetFlightInfo_request context request) = EP_GetFlightInfo"
| "entry_point (DoGet_request context request) = EP_DoGet"
| "entry_point (DoPut_request context reader) = EP_DoPut"
| "entry_point (DoAction_request context action) = EP_DoAction"

text \<open>What an entry point dispatches on: the envelope's type tag, or the action's type name.\<close>

fun request_tag :: "Request \<Rightarrow> string" where
  "request_tag (GetFlightInfo_request context request) = type_tag (cmd request)"
| "request_tag (DoGet_request context request) = type_tag (ticket request)"
| "request_tag (DoPut_request context reader) = type_tag (cmd (descriptor reader))"
| "request_tag (DoAction_request context action) = type action"

text \<open>
  The command kinds that the spec lists for each entry point (section 4.4: GetInfo,
  PullData, PushData, DoAction), as type tags and action type names.
\<close>

fun known_message_types :: "EntryPoint \<Rightarrow> MessageType list" where
  "known_message_types EP_GetFlightInfo =
     [CommandStatementQuery, CommandPreparedStatementQuery, CommandGetCatalogs,
      CommandGetSchemas, CommandGetTables, CommandGetTableTypes, CommandGetSqlInfo,
      CommandGetPrimaryKeys, CommandGetExportedKeys, CommandGetImportedKeys]"
| "known_message_types EP_DoGet =
     [TicketStatementQuery, CommandPreparedStatementQuery, CommandGetCatalogs,
      CommandGetSchemas, CommandGetTables, CommandGetTableTypes, CommandGetSqlInfo,
      CommandGetPrimaryKeys, CommandGetExportedKeys, CommandGetImportedKeys]"
| "known_message_types EP_DoPut = [CommandStatementUpdate, CommandPreparedStatementQuery]"
| "known_message_types EP_DoAction = []"

fun known_kinds :: "EntryPoint \<Rightarrow> string list" where
  "known_kinds EP_DoAction = [''CreatePreparedStatement'', ''ClosePreparedStatement'']"
| "known_kinds ep = map FullMessageName (known_message_types ep)"

text \<open>
  The handler of a call by its name in the sources, the entry point it belongs to (by
  its name, and its signature), and the command kind it is specific to (the type of
  its command parameter; for the four handlers without one, the kind in its name).
\<close>

fun handler_name :: "HandlerCall \<Rightarrow> string" where
  "handler_name (Call_GetFlightInfoStatement command context flight_descriptor) = ''GetFlightInfoStatement''"
| "handler_name (Call_GetFlightInfoPreparedStatement command context flight_descriptor) = ''GetFlightInfoPreparedStatement''"
| "handler_name (Call_GetFlightInfoCatalogs context flight_descriptor) = ''GetFlightInfoCatalogs''"
| "handler_name (Call_GetFlightInfoSchemas command context flight_descriptor) = ''GetFlightInfoSchemas''"
| "handler_name (Call_GetFlightInfoTables command context flight_descriptor) = ''GetFlightInfoTables''"
| "handler_name (Call_GetFlightInfoTableTypes context flight_descriptor) = ''GetFlightInfoTableTypes''"
| "handler_name (Call_GetFlightInfoSqlInfo command context flight_descriptor) = ''GetFlightInfoSqlInfo''"
| "handler_name (Call_GetFlightInfoPrimaryKeys command context flight_descriptor) = ''GetFlightInfoPrimaryKeys''"
| "handler_name (Call_GetFlightInfoExportedKeys command context flight_descriptor) = ''GetFlightInfoExportedKeys''"
| "handler_name (Call_GetFlightInfoImportedKeys command context flight_descriptor) = ''GetFlightInfoImportedKeys''"
| "handler_name (Call_DoGetStatement command context) = ''DoGetStatement''"
| "handler_name (Call_DoGetPreparedStatement command context) = ''DoGetPreparedStatement''"
| "handler_name (Call_DoGetCatalogs context) = ''DoGetCatalogs''"
| "handler_name (Call_DoGetSchemas command context) = ''DoGetSchemas''"
| "handler_name (Call_DoGetTables command context) = ''DoGetTables''"
| "handler_name (Call_DoGetTableTypes context) = ''DoGetTableTypes''"
| "handler_name (Call_DoGetSqlInfo command context) = ''DoGetSqlInfo''"
| "handler_name (Call_DoGetPrimaryKeys command context) = ''DoGetPrimaryKeys''"
| "handler_name (Call_DoGetExportedKeys command context) = ''DoGetExportedKeys''"
| "handler_name (Call_DoGetImportedKeys command context) = ''DoGetImportedKeys''"
| "handler_name (Call_DoPutCommandStatementUpdate command context reader) = ''DoPutCommandStatementUpdate''"
| "handler_name (Call_DoPutPreparedStatement command context reader) = ''DoPutPreparedStatement''"
| "handler_name (Call_CreatePreparedStatement request context) = ''CreatePreparedStatement''"
| "handler_name (Call_ClosePreparedStatement request context) = ''ClosePreparedStatement''"

fun handler_entry_point :: "HandlerCall \<Rightarrow> EntryPoint" where
  "handler_entry_point (Call_GetFlightInfoStatement command context flight_descriptor) = EP_GetFlightInfo"
| "handler_entry_point (Call_GetFlightInfoPreparedStatement command context flight_descriptor) = EP_GetFlightInfo"
| "handler_entry_point (Call_GetFlightInfoCatalogs context flight_descriptor) = EP_GetFlightInfo"
| "handler_entry_point (Call_GetFlightInfoSchemas command context flight_descriptor) = EP_GetFlightInfo"
| "handler_entry_point (Call_GetFlightInfoTables command context flight_descriptor) = EP_GetFlightInfo"
| "handler_entry_point (Call_GetFlightInfoTableTypes context flight_descriptor) = EP_GetFlightInfo"
| "handler_entry_point (Call_GetFlightInfoSqlInfo command context flight_descriptor) = EP_GetFlightInfo"
| "handler_entry_point (Call_GetFlightInfoPrimaryKeys command context flight_descriptor) = EP_GetFlightInfo"
| "handler_entry_point (Call_GetFlightInfoExportedKeys command context flight_descriptor) = EP_GetFlightInfo"
| "handler_entry_point (Call_GetFlightInfoImportedKeys command context flight_descriptor) = EP_GetFlightInfo"
| "handler_entry_point (Call_DoGetStatement command context) = EP_DoGet"
| "handler_entry_point (Call_DoGetPreparedStatement command context) = EP_DoGet"
| "handler_entry_point (Call_DoGetCatalogs context) = EP_DoGet"
| "handler_entry_point (Call_DoGetSchemas command context) = EP_DoGet"
| "handler_entry_point (Call_DoGetTables command context) = EP_DoGet"
| "handler_entry_point (Call_DoGetTableTypes context) = EP_DoGet"
| "handler_entry_point (Call_DoGetSqlInfo command context) = EP_DoGet"
| "handler_entry_point (Call_DoGetPrimaryKeys command context) = EP_DoGet"
| "handler_entry_point (Call_DoGetExportedKeys command context) = EP_DoGet"
| "handler_entry_point (Call_DoGetImportedKeys command context) = EP_DoGet"
| "handler_entry_point (Call_DoPutCommandStatementUpdate command context reader) = EP_DoPut"
| "handler_entry_point (Call_DoPutPreparedStatement command context reader) = EP_DoPut"
| "handler_entry_point (Call_CreatePreparedStatement request context) = EP_DoAction"
| "handler_entry_point (Call_ClosePreparedStatement request context) = EP_DoAction"

fun handler_kind :: "HandlerCall \<Rightarrow> string" where
  "handler_kind (Call_GetFlightInfoStatement command context flight_descriptor) = FullMessageName CommandStatementQuery"
| "handler_kind (Call_GetFlightInfoPreparedStatement command context flight_descriptor) = FullMessageName CommandPreparedStatementQuery"
| "handler_kind (Call_GetFlightInfoCatalogs context flight_descriptor) = FullMessageName CommandGetCatalogs"
| "handler_kind (Call_GetFlightInfoSchemas command context flight_descriptor) = FullMessageName CommandGetSchemas"
| "handler_kind (Call_GetFlightInfoTables command context flight_descriptor) = FullMessageName CommandGetTables"
| "handler_kind (Call_GetFlightInfoTableTypes context flight_descriptor) = FullMessageName CommandGetTableTypes"
| "handler_kind (Call_GetFlightInfoSqlInfo command context flight_descriptor) = FullMessageName CommandGetSqlInfo"
| "handler_kind (Call_GetFlightInfoPrimaryKeys command context flight_descriptor) = FullMessageName CommandGetPrimaryKeys"
| "handler_kind (Call_GetFlightInfoExportedKeys command context flight_descriptor) = FullMessageName CommandGetExportedKeys"
| "handler_kind (Call_GetFlightInfoImportedKeys command context flight_descriptor) = FullMessageName CommandGetImportedKeys"
| "handler_kind (Call_DoGetStatement command context) = FullMessageName TicketStatementQuery"
| "handler_kind (Call_DoGetPreparedStatement command context) = FullMessageName CommandPreparedStatementQuery"
| "handler_kind (Call_DoGetCatalogs context) = FullMessageName CommandGetCatalogs"
| "handler_kind (Call_DoGetSchemas command context) = FullMessageName CommandGetSchemas"
| "handler_kind (Call_DoGetTables command context) = FullMessageName CommandGetTables"
| "handler_kind (Call_DoGetTableTypes context) = FullMessageName CommandGetTableTypes"
| "handler_kind (Call_DoGetSqlInfo command context) = FullMessageName CommandGetSqlInfo"
| "handler_kind (Call_DoGetPrimaryKeys command context) = FullMessageName CommandGetPrimaryKeys"
| "handler_kind (Call_DoGetExportedKeys command context) = FullMessageName CommandGetExportedKeys"
| "handler_kind (Call_DoGetImportedKeys command context) = FullMessageName CommandGetImportedKeys"
| "handler_kind (Call_DoPutCommandStatementUpdate command context reader) = FullMessageName CommandStatementUpdate"
| "handler_kind (Call_DoPutPreparedStatement command context reader) = FullMessageName CommandPreparedStatementQuery"
| "handler_kind (Call_CreatePreparedStatement request context) = ''CreatePreparedStatement''"
| "handler_kind (Call_ClosePreparedStatement request context) = ''ClosePreparedStatement''"

text \<open>
  The handlers that the three envelope-carrying entry points invoke for one envelope.
\<close>

definition dispatch_branches :: "'o Handlers \<Rightarrow> ServerCallContext \<Rightarrow> Any \<Rightarrow> HandlerCall list" where
  "dispatch_branches impl context any =
     fst (GetFlightInfo impl context \<lparr>cmd = any\<rparr>) @
     fst (DoGet impl context \<lparr>ticket = any\<rparr>) @
     fst (DoPut impl context \<lparr>descriptor = \<lparr>cmd = any\<rparr>\<rparr>)"

text \<open>
  The same, entry point by entry point: the names of the handlers that GetFlightInfo,
  DoGet and DoPut invoke for one envelope, in this order.
\<close>

definition entry_point_routes ::
  "'o Handlers \<Rightarrow> ServerCallContext \<Rightarrow> Any \<Rightarrow> string list \<times> string list \<times> string list" where
  "entry_point_routes impl context any =
     (map handler_name (fst (GetFlightInfo impl context \<lparr>cmd = any\<rparr>)),
      map handler_name (fst (DoGet impl context \<lparr>ticket = any\<rparr>)),
      map handler_name (fst (DoPut impl context \<lparr>descriptor = \<lparr>cmd = any\<rparr>\<rparr>)))"

definition envelope :: "MessageType \<Rightarrow> string \<Rightarrow> Any" where
  "envelope T payload = \<lparr>type_tag = FullMessageName T, any_value = payload\<rparr>"

section \<open>The client side: descriptors, update results and prepared statements\<close>

subsection \<open>Messages and getDescriptor (client\_test.cc)\<close>

text \<open>
  The messages that the client builds or reads, with the fields that the tests set:
  the query of a statement, the handle of a prepared statement, the record count of an
  update result (\<^verbatim>\<open>int64\<close>).
\<close>

datatype Message =
    Msg_CommandStatementQuery string
  | Msg_CommandStatementUpdate string
  | Msg_CommandPreparedStatementQuery string
  | Msg_DoPutUpdateResult "64 word"

fun GetTypeName :: "Message \<Rightarrow> MessageType" where
  "GetTypeName (Msg_CommandStatementQuery query) = CommandStatementQuery"
| "GetTypeName (Msg_CommandStatementUpdate query) = CommandStatementUpdate"
| "GetTypeName (Msg_CommandPreparedStatementQuery prepared_statement_handle) =
     CommandPreparedStatementQuery"
| "GetTypeName (Msg_DoPutUpdateResult record_count) = DoPutUpdateResult"

text \<open>
  The serializer and the parser of the generated message classes belong to the protobuf
  library, which is not among the sources: they are parameters of the client.
\<close>

record Codec =
  SerializeAsString :: "Message \<Rightarrow> string"
  ParseFromString :: "MessageType \<Rightarrow> string \<Rightarrow> Message option"

definition PackFrom :: "Codec \<Rightarrow> Message \<Rightarrow> Any" where
  "PackFrom codec command =
     \<lparr>type_tag = FullMessageName (GetTypeName command),
      any_value = SerializeAsString codec command\<rparr>"

definition getDescriptor :: "Codec \<Rightarrow> Message \<Rightarrow> FlightDescriptor" where
  \<comment> \<open>\<^verbatim>\<open>any.PackFrom(command); return FlightDescriptor::Command(any.SerializeAsString());\<close>\<close>
  "getDescriptor codec command = \<lparr>cmd = PackFrom codec command\<rparr>"

subsection \<open>The transport (client\_test.cc, FlightClientImpl and the reader mock)\<close>

record RecordBatch =
  batch_schema :: Schema
  num_rows :: nat

text \<open>
  A metadata reader is read once by the operations below: it is what that
  \<^verbatim>\<open>ReadMetadata\<close> call returns, an error status or the buffer.
\<close>

type_synonym FlightMetadataReader = "Status + string"

text \<open>
  The transport that the client is given. A call returns an error status or its result;
  a push-data call is given the descriptor and the batches written to its stream, and
  results in the metadata reader.
\<close>

record 'i FlightClientImpl =
  client_GetFlightInfo :: "FlightDescriptor \<Rightarrow> Status + 'i"
  client_DoPut :: "FlightDescriptor \<Rightarrow> RecordBatch list \<Rightarrow> Status + FlightMetadataReader"

datatype TransportCall =
    GetFlightInfo_call FlightDescriptor
  | DoPut_call FlightDescriptor "RecordBatch list"

datatype ClientError = TransportError Status | Malformed

subsection \<open>FlightSqlClient and PreparedStatement\<close>

text \<open>
  Modelled from the spec: the decoding of an update result in \<^verbatim>\<open>FlightSqlClient\<close>
  (client.cc is not among the sources). Section 6: the update-result envelope has "a
  single field record\_count (64-bit signed integer)"; section 7: \<open>Malformed\<close> when the
  payload fails to parse.
\<close>

definition decode_update_result :: "Codec \<Rightarrow> string \<Rightarrow> ClientError + 64 word" where
  "decode_update_result codec buffer =
     (case ParseFromString codec DoPutUpdateResult buffer of
        Some (Msg_DoPutUpdateResult record_count) \<Rightarrow> Inr record_count
      | _ \<Rightarrow> Inl Malformed)"

text \<open>
  Modelled from the spec: step 4 of the client operations, for update operations
  (client.cc is not among the sources): after the push-data call, the client "reads
  exactly one metadata buffer from the push response, decodes it as an update-result
  envelope, and returns its row-count field unmodified"; an error is "returned to the
  immediate caller unchanged". The result is the transport calls made, in order, and
  the value returned.
\<close>

definition push_update ::
  "Codec \<Rightarrow> 'i FlightClientImpl \<Rightarrow> FlightDescriptor \<Rightarrow> RecordBatch list \<Rightarrow>
     TransportCall list \<times> (ClientError + 64 word)" where
  "push_update codec client flight_descriptor batches =
     ([DoPut_call flight_descriptor batches],
      (case client_DoPut client flight_descriptor batches of
         Inl status \<Rightarrow> Inl (TransportError status)
       | Inr reader \<Rightarrow>
           (case reader of
              Inl status \<Rightarrow> Inl (TransportError status)
            | Inr buffer \<Rightarrow> decode_update_result codec buffer)))"

text \<open>
  Modelled from the spec: \<^verbatim>\<open>FlightSqlClient::ExecuteUpdate\<close> (client.cc is not among
  the sources). It "builds the matching Command with the supplied arguments", "encodes
  it via the Envelope Codec into a Descriptor", invokes "push data", and returns the row
  count of the update result.
\<close>

definition ExecuteUpdate ::
  "Codec \<Rightarrow> 'i FlightClientImpl \<Rightarrow> string \<Rightarrow> TransportCall list \<times> (ClientError + 64 word)" where
  "ExecuteUpdate codec client query =
     push_update codec client (getDescriptor codec (Msg_CommandStatementUpdate query)) []"

text \<open>
  Modelled from the spec: the \<^verbatim>\<open>PreparedStatement\<close> object of the client (client.cc is
  not among the sources): it is "bound to this handle", and holds the parameter batch
  that \<^verbatim>\<open>SetParameters\<close> stored, if any.
\<close>

record PreparedStatement =
  prepared_statement_handle :: string
  parameter_binding :: "RecordBatch option"

text \<open>
  Modelled from the spec: \<^verbatim>\<open>PreparedStatement::SetParameters\<close> (client.cc is not among
  the sources): it "stores the batch for the next Execute/ExecuteUpdate call".
\<close>

definition SetParameters :: "RecordBatch \<Rightarrow> PreparedStatement \<Rightarrow> PreparedStatement" where
  "SetParameters batch statement = statement\<lparr>parameter_binding := Some batch\<rparr>"

text \<open>
  Modelled from the spec: \<^verbatim>\<open>PreparedStatement::Execute\<close> (client.cc is not among the
  sources): "if a parameter batch is stored, first performs a push data call carrying
  that batch and the prepared-statement command; then performs a get info call with a
  command referencing the handle; returns the resulting info object". Calls are
  synchronous, and a failure is surfaced immediately: a failed push ends the execution.
\<close>

definition PreparedStatement_Execute ::
  "Codec \<Rightarrow> 'i FlightClientImpl \<Rightarrow> PreparedStatement \<Rightarrow> TransportCall list \<times> (Status + 'i)" where
  "PreparedStatement_Execute codec client statement =
     (let flight_descriptor = getDescriptor codec
            (Msg_CommandPreparedStatementQuery (prepared_statement_handle statement))
      in case parameter_binding statement of
           None \<Rightarrow>
             ([GetFlightInfo_call flight_descriptor],
              client_GetFlightInfo client flight_descriptor)
         | Some batch \<Rightarrow>
             (case client_DoPut client flight_descriptor [batch] of
                Inl status \<Rightarrow> ([DoPut_call flight_descriptor [batch]], Inl status)
              | Inr reader \<Rightarrow>
                  ([DoPut_call flight_descriptor [batch], GetFlightInfo_call flight_descriptor],
                   client_GetFlightInfo client flight_descriptor)))"

text \<open>
  Modelled from the spec: \<^verbatim>\<open>PreparedStatement::ExecuteUpdate\<close> (client.cc is not among
  the sources): it "performs a push data call; decodes the returned update-result
  envelope; returns the row count". The push carries the stored batch, if any.
\<close>

definition PreparedStatement_ExecuteUpdate ::
  "Codec \<Rightarrow> 'i FlightClientImpl \<Rightarrow> PreparedStatement \<Rightarrow>
     TransportCall list \<times> (ClientError + 64 word)" where
  "PreparedStatement_ExecuteUpdate codec client statement =
     push_update codec client
       (getDescriptor codec
          (Msg_CommandPreparedStatementQuery (prepared_statement_handle statement)))
       (case parameter_binding statement of None \<Rightarrow> [] | Some batch \<Rightarrow> [batch])"

subsection \<open>The mocks of client\_test.cc\<close>

text \<open>
  \<^verbatim>\<open>FlightMetadataReaderMock\<close> returns its buffer with status OK; the default action
  that the tests give \<^verbatim>\<open>DoPut\<close> installs such a reader and returns OK; a mocked
  \<^verbatim>\<open>GetFlightInfo\<close> returns OK.
\<close>

definition FlightMetadataReaderMock :: "string \<Rightarrow> FlightMetadataReader" where
  "FlightMetadataReaderMock buffer = Inr buffer"

definition client_mock :: "string \<Rightarrow> unit FlightClientImpl" where
  "client_mock buffer =
     \<lparr>client_GetFlightInfo = (\<lambda>flight_descriptor. Inr ()),
      client_DoPut = (\<lambda>flight_descriptor batches. Inr (FlightMetadataReaderMock buffer))\<rparr>"

text \<open>
  A stand-in for protobuf in the examples: it writes every message as the empty string
  and reads one buffer, the two bytes \<open>08 64\<close> (field 1, varint 100), as the update
  result with \<^verbatim>\<open>record_count = 100\<close> of \<^verbatim>\<open>TestExecuteUpdate\<close>.
\<close>

definition codec_mock :: Codec where
  "codec_mock =
     \<lparr>SerializeAsString = (\<lambda>message. []),
      ParseFromString = (\<lambda>T buffer.
        if T = DoPutUpdateResult \<and> buffer = [CHR 0x08, CHR 0x64]
        then Some (Msg_DoPutUpdateResult 100) else None)\<rparr>"

section \<open>Properties of the column metadata and of the schemas\<close>

lemma metadata_of_append:
  "GetMetadataMap (column_metadata (append_metadata builder key val)) =
     GetMetadataMap (column_metadata builder) @ [(key, val)]"
  by (simp add: append_metadata_def GetMetadataMap_def Append_def)

text \<open>
  C9. A boolean column-metadata value is written as the literal \<open>YES\<close> when it is true and
  \<open>NO\<close> when it is false, and each of the four boolean setters (IsAutoIncrement,
  IsCaseSensitive, IsReadOnly, IsSearchable) appends exactly one pair to the metadata
  map: its own key with that literal.
\<close>

theorem boolean_metadata_yes_no:
  "BooleanToString True = ''YES'' \<and> BooleanToString False = ''NO'' \<and>
   GetMetadataMap (column_metadata (IsAutoIncrement b builder)) =
     GetMetadataMap (column_metadata builder) @
       [(''IS_AUTO_INCREMENT'', if b then ''YES'' else ''NO'')] \<and>
   GetMetadataMap (column_metadata (IsCaseSensitive b builder)) =
     GetMetadataMap (column_metadata builder) @
       [(''IS_CASE_SENSITIVE'', if b then ''YES'' else ''NO'')] \<and>
   GetMetadataMap (column_metadata (IsReadOnly b builder)) =
     GetMetadataMap (column_metadata builder) @
       [(''IS_READ_ONLY'', if b then ''YES'' else ''NO'')] \<and>
   GetMetadataMap (column_metadata (IsSearchable b builder)) =
     GetMetadataMap (column_metadata builder) @
       [(''IS_SEARCHABLE'', if b then ''YES'' else ''NO'')]"
  by (simp add: BooleanToString_def BOOLEAN_TRUE_STR_def BOOLEAN_FALSE_STR_def
      IsAutoIncrement_def IsCaseSensitive_def IsReadOnly_def IsSearchable_def
      IS_AUTO_INCREMENT_def IS_CASE_SENSITIVE_def IS_READ_ONLY_def IS_SEARCHABLE_def
      metadata_of_append)

text \<open>
  C4. The GetTables schema without the table schema has exactly four columns,
  catalog\_name, schema\_name, table\_name and table\_type, all strings. With the table
  schema included it has exactly five: the same four, then table\_schema of binary type.
\<close>

theorem get_tables_schema_columns:
  "length GetTablesSchema = 4 \<and>
   map field_name GetTablesSchema =
     [''catalog_name'', ''schema_name'', ''table_name'', ''table_type''] \<and>
   map field_type GetTablesSchema = [utf8, utf8, utf8, utf8] \<and>
   length GetTablesSchemaWithIncludedSchema = 5 \<and>
   take 4 GetTablesSchemaWithIncludedSchema = GetTablesSchema \<and>
   field_name (GetTablesSchemaWithIncludedSchema ! 4) = ''table_schema'' \<and>
   field_type (GetTablesSchemaWithIncludedSchema ! 4) = binary"
  by (simp add: GetTablesSchema_def GetTablesSchemaWithIncludedSchema_def field_def)

text \<open>
  C5. The schema shared by GetImportedKeys and GetExportedKeys is the thirteen-column
  layout of the spec's table, in this order, with these types and nullabilities.
\<close>

theorem imported_exported_keys_schema_layout:
  "map column GetImportedAndExportedKeysSchema =
     [(''pk_catalog_name'', utf8, True), (''pk_schema_name'', utf8, True),
      (''pk_table_name'', utf8, False), (''pk_column_name'', utf8, False),
      (''fk_catalog_name'', utf8, True), (''fk_schema_name'', utf8, True),
      (''fk_table_name'', utf8, False), (''fk_column_name'', utf8, False),
      (''key_sequence'', int32, False),
      (''fk_key_name'', utf8, True), (''pk_key_name'', utf8, True),
      (''update_rule'', uint8, False), (''delete_rule'', uint8, False)] \<and>
   length GetImportedAndExportedKeysSchema = 13"
  by (simp add: GetImportedAndExportedKeysSchema_def field_def column_def)

section \<open>Properties of the server dispatcher\<close>

subsection \<open>Type tags\<close>

lemma FullMessageName_inject: "(FullMessageName a = FullMessageName b) = (a = b)"
  by (cases a; cases b; simp)

lemma Is_tagged:
  "type_tag any = FullMessageName t \<Longrightarrow> Is any T = (t = T)"
  by (simp add: Is_def FullMessageName_inject del: FullMessageName.simps)

lemma Is_envelope: "Is (envelope T payload) T' = (T = T')"
  by (simp add: Is_def envelope_def FullMessageName_inject del: FullMessageName.simps)

subsection \<open>The handlers invoked for an envelope with a given type tag\<close>

lemma GetFlightInfo_envelope:
  "fst (GetFlightInfo impl context \<lparr>cmd = envelope T p\<rparr>) =
     (if T = CommandStatementQuery then
        [Call_GetFlightInfoStatement (UnpackTo T (envelope T p)) context \<lparr>cmd = envelope T p\<rparr>]
      else if T = CommandPreparedStatementQuery then
        [Call_GetFlightInfoPreparedStatement (UnpackTo T (envelope T p)) context \<lparr>cmd = envelope T p\<rparr>]
      else if T = CommandGetCatalogs then
        [Call_GetFlightInfoCatalogs context \<lparr>cmd = envelope T p\<rparr>]
      else if T = CommandGetSchemas then
        [Call_GetFlightInfoSchemas (UnpackTo T (envelope T p)) context \<lparr>cmd = envelope T p\<rparr>]
      else if T = CommandGetTables then
        [Call_GetFlightInfoTables (UnpackTo T (envelope T p)) context \<lparr>cmd = envelope T p\<rparr>]
      else if T = CommandGetTableTypes then
        [Call_GetFlightInfoTableTypes context \<lparr>cmd = envelope T p\<rparr>]
      else if T = CommandGetSqlInfo then
        [Call_GetFlightInfoSqlInfo (UnpackTo T (envelope T p)) context \<lparr>cmd = envelope T p\<rparr>]
      else if T = CommandGetPrimaryKeys then
        [Call_GetFlightInfoPrimaryKeys (UnpackTo T (envelope T p)) context \<lparr>cmd = envelope T p\<rparr>]
      else if T = CommandGetExportedKeys then
        [Call_GetFlightInfoExportedKeys (UnpackTo T (envelope T p)) context \<lparr>cmd = envelope T p\<rparr>]
      else if T = CommandGetImportedKeys then
        [Call_GetFlightInfoImportedKeys (UnpackTo T (envelope T p)) context \<lparr>cmd = envelope T p\<rparr>]
      else [])"
  by (simp add: GetFlightInfo_def Let_def Is_envelope invoke_def)

lemma DoGet_envelope:
  "fst (DoGet impl context \<lparr>ticket = envelope T p\<rparr>) =
     (if T = TicketStatementQuery then
        [Call_DoGetStatement (UnpackTo T (envelope T p)) context]
      else if T = CommandPreparedStatementQuery then
        [Call_DoGetPreparedStatement (UnpackTo T (envelope T p)) context]
      else if T = CommandGetCatalogs then
        [Call_DoGetCatalogs context]
      else if T = CommandGetSchemas then
        [Call_DoGetSchemas (UnpackTo T (envelope T p)) context]
      else if T = CommandGetTables then
        [Call_DoGetTables (UnpackTo T (envelope T p)) context]
      else if T = CommandGetTableTypes then
        [Call_DoGetTableTypes context]
      else if T = CommandGetSqlInfo then
        [Call_DoGetSqlInfo (UnpackTo T (envelope T p)) context]
      else if T = CommandGetPrimaryKeys then
        [Call_DoGetPrimaryKeys (UnpackTo T (envelope T p)) context]
      else if T = CommandGetExportedKeys then
        [Call_DoGetExportedKeys (UnpackTo T (envelope T p)) context]
      else if T = CommandGetImportedKeys then
        [Call_DoGetImportedKeys (UnpackTo T (envelope T p)) context]
      else [])"
  by (simp add: DoGet_def Let_def Is_envelope invoke_def)

lemma DoPut_envelope:
  "fst (DoPut impl context \<lparr>descriptor = \<lparr>cmd = envelope T p\<rparr>\<rparr>) =
     (if T = CommandStatementUpdate then
        [Call_DoPutCommandStatementUpdate (UnpackTo T (envelope T p)) context
           \<lparr>descriptor = \<lparr>cmd = envelope T p\<rparr>\<rparr>]
      else if T = CommandPreparedStatementQuery then
        [Call_DoPutPreparedStatement (UnpackTo T (envelope T p)) context
           \<lparr>descriptor = \<lparr>cmd = envelope T p\<rparr>\<rparr>]
      else [])"
  by (simp add: DoPut_def Let_def Is_envelope invoke_def)

lemma entry_point_routes_envelope:
  "entry_point_routes impl context (envelope T p) =
     (if T = CommandStatementQuery then ([''GetFlightInfoStatement''], [], [])
      else if T = CommandPreparedStatementQuery then
        ([''GetFlightInfoPreparedStatement''], [''DoGetPreparedStatement''],
         [''DoPutPreparedStatement''])
      else if T = CommandStatementUpdate then ([], [], [''DoPutCommandStatementUpdate''])
      else if T = TicketStatementQuery then ([], [''DoGetStatement''], [])
      else if T = CommandGetCatalogs then ([''GetFlightInfoCatalogs''], [''DoGetCatalogs''], [])
      else if T = CommandGetSchemas then ([''GetFlightInfoSchemas''], [''DoGetSchemas''], [])
      else if T = CommandGetTables then ([''GetFlightInfoTables''], [''DoGetTables''], [])
      else if T = CommandGetTableTypes then
        ([''GetFlightInfoTableTypes''], [''DoGetTableTypes''], [])
      else if T = CommandGetSqlInfo then ([''GetFlightInfoSqlInfo''], [''DoGetSqlInfo''], [])
      else if T = CommandGetPrimaryKeys then
        ([''GetFlightInfoPrimaryKeys''], [''DoGetPrimaryKeys''], [])
      else if T = CommandGetExportedKeys then
        ([''GetFlightInfoExportedKeys''], [''DoGetExportedKeys''], [])
      else if T = CommandGetImportedKeys then
        ([''GetFlightInfoImportedKeys''], [''DoGetImportedKeys''], [])
      else ([], [], []))"
  unfolding entry_point_routes_def GetFlightInfo_envelope DoGet_envelope DoPut_envelope
  by (cases T) simp_all

lemma GetFlightInfo_at_most_one:
  "length (fst (GetFlightInfo impl context request)) \<le> 1"
  by (simp add: GetFlightInfo_def Let_def invoke_def)

lemma DoGet_at_most_one:
  "length (fst (DoGet impl context request)) \<le> 1"
  by (simp add: DoGet_def Let_def invoke_def)

lemma DoPut_at_most_one:
  "length (fst (DoPut impl context reader)) \<le> 1"
  by (simp add: DoPut_def Let_def invoke_def)

lemma DoAction_at_most_one:
  "length (fst (DoAction impl context action)) \<le> 1"
  by (simp add: DoAction_def Let_def invoke_def)

subsection \<open>Dispatch at the four entry points\<close>

lemma GetFlightInfo_known:
  assumes "t \<in> set (known_message_types EP_GetFlightInfo)"
    and "type_tag (cmd request) = FullMessageName t"
  shows "\<exists>c. GetFlightInfo impl context request = ([c], impl c) \<and>
    handler_kind c = FullMessageName t \<and> handler_entry_point c = EP_GetFlightInfo"
proof -
  note tag = Is_tagged [OF assms(2)]
  from assms(1) show ?thesis
    unfolding GetFlightInfo_def Let_def tag invoke_def
    by (auto simp del: FullMessageName.simps)
qed

lemma GetFlightInfo_unknown:
  assumes "type_tag (cmd request) \<notin> set (known_kinds EP_GetFlightInfo)"
  shows "GetFlightInfo impl context request = ([], Invalid ''The defined request is invalid.'', None)"
  using assms
  by (simp add: GetFlightInfo_def Is_def Let_def del: FullMessageName.simps)

lemma DoGet_known:
  assumes "t \<in> set (known_message_types EP_DoGet)"
    and "type_tag (ticket request) = FullMessageName t"
  shows "\<exists>c. DoGet impl context request = ([c], impl c) \<and>
    handler_kind c = FullMessageName t \<and> handler_entry_point c = EP_DoGet"
proof -
  note tag = Is_tagged [OF assms(2)]
  from assms(1) show ?thesis
    unfolding DoGet_def Let_def tag invoke_def
    by (auto simp del: FullMessageName.simps)
qed

lemma DoGet_unknown:
  assumes "type_tag (ticket request) \<notin> set (known_kinds EP_DoGet)"
  shows "DoGet impl context request = ([], Invalid ''The defined request is invalid.'', None)"
  using assms
  by (simp add: DoGet_def Is_def Let_def del: FullMessageName.simps)

lemma DoPut_known:
  assumes "t \<in> set (known_message_types EP_DoPut)"
    and "type_tag (cmd (descriptor reader)) = FullMessageName t"
  shows "\<exists>c. DoPut impl context reader = ([c], impl c) \<and>
    handler_kind c = FullMessageName t \<and> handler_entry_point c = EP_DoPut"
proof -
  note tag = Is_tagged [OF assms(2)]
  from assms(1) show ?thesis
    unfolding DoPut_def Let_def tag invoke_def
    by (auto simp del: FullMessageName.simps)
qed

lemma DoPut_unknown:
  assumes "type_tag (cmd (descriptor reader)) \<notin> set (known_kinds EP_DoPut)"
  shows "DoPut impl context reader = ([], Invalid ''The defined request is invalid.'', None)"
  using assms
  by (simp add: DoPut_def Is_def Let_def del: FullMessageName.simps)

lemma DoAction_known:
  assumes "type action \<in> set (known_kinds EP_DoAction)"
  shows "\<exists>c. DoAction impl context action = ([c], impl c) \<and>
    handler_kind c = type action \<and> handler_entry_point c = EP_DoAction"
proof -
  from assms have "type action = ''CreatePreparedStatement'' \<or>
      type action = ''ClosePreparedStatement''"
    by simp
  then show ?thesis
  proof
    assume "type action = ''CreatePreparedStatement''"
    then show ?thesis
      by (simp add: DoAction_def invoke_def Let_def FLIGHT_SQL_CREATE_PREPARED_STATEMENT_def)
  next
    assume "type action = ''ClosePreparedStatement''"
    then show ?thesis
      by (simp add: DoAction_def invoke_def Let_def FLIGHT_SQL_CREATE_PREPARED_STATEMENT_def
          FLIGHT_SQL_CLOSE_PREPARED_STATEMENT_def)
  qed
qed

lemma DoAction_unknown:
  assumes "type action \<notin> set (known_kinds EP_DoAction)"
  shows "DoAction impl context action = ([], Invalid ''The defined request is invalid.'', None)"
  using assms
  by (simp add: DoAction_def FLIGHT_SQL_CREATE_PREPARED_STATEMENT_def
      FLIGHT_SQL_CLOSE_PREPARED_STATEMENT_def)

lemma known_kinds_tag:
  "ep \<noteq> EP_DoAction \<Longrightarrow> tag \<in> set (known_kinds ep) \<Longrightarrow>
     \<exists>t. t \<in> set (known_message_types ep) \<and> tag = FullMessageName t"
  by (cases ep) (auto simp del: FullMessageName.simps)

text \<open>
  C2. At each of the four entry points (GetFlightInfo, DoGet, DoPut, DoAction), whatever
  the backend: when the envelope's type tag (for DoAction, the action's type name) is
  one of the command kinds of that entry point, exactly one handler is invoked, it
  belongs to that entry point and is the one specific to that kind, and the entry point
  returns what the handler returns; when it is none of them, no handler is invoked and
  the entry point returns the invalid status "The defined request is invalid.".
\<close>

theorem dispatch_total_and_exclusive:
  "(request_tag r \<in> set (known_kinds (entry_point r)) \<longrightarrow>
      (\<exists>c. serve impl r = ([c], impl c) \<and> handler_kind c = request_tag r \<and>
           handler_entry_point c = entry_point r)) \<and>
   (request_tag r \<notin> set (known_kinds (entry_point r)) \<longrightarrow>
      serve impl r = ([], Invalid ''The defined request is invalid.'', None))"
proof (cases r)
  case (GetFlightInfo_request ctx request)
  show ?thesis
  proof (intro conjI impI)
    assume "request_tag r \<in> set (known_kinds (entry_point r))"
    then have "type_tag (cmd request) \<in> set (known_kinds EP_GetFlightInfo)"
      by (simp add: GetFlightInfo_request del: known_kinds.simps)
    then obtain t where "t \<in> set (known_message_types EP_GetFlightInfo)"
      and "type_tag (cmd request) = FullMessageName t"
      using known_kinds_tag [of EP_GetFlightInfo] by blast
    then show "\<exists>c. serve impl r = ([c], impl c) \<and> handler_kind c = request_tag r \<and>
           handler_entry_point c = entry_point r"
      using GetFlightInfo_known [of t request impl ctx]
      by (simp add: GetFlightInfo_request del: FullMessageName.simps known_message_types.simps)
  next
    assume "request_tag r \<notin> set (known_kinds (entry_point r))"
    then have "type_tag (cmd request) \<notin> set (known_kinds EP_GetFlightInfo)"
      by (simp add: GetFlightInfo_request del: known_kinds.simps)
    then show "serve impl r = ([], Invalid ''The defined request is invalid.'', None)"
      using GetFlightInfo_unknown [of request impl ctx]
      by (simp add: GetFlightInfo_request del: known_kinds.simps)
  qed
next
  case (DoGet_request ctx request)
  show ?thesis
  proof (intro conjI impI)
    assume "request_tag r \<in> set (known_kinds (entry_point r))"
    then have "type_tag (ticket request) \<in> set (known_kinds EP_DoGet)"
      by (simp add: DoGet_request del: known_kinds.simps)
    then obtain t where "t \<in> set (known_message_types EP_DoGet)"
      and "type_tag (ticket request) = FullMessageName t"
      using known_kinds_tag [of EP_DoGet] by blast
    then show "\<exists>c. serve impl r = ([c], impl c) \<and> handler_kind c = request_tag r \<and>
           handler_entry_point c = entry_point r"
      using DoGet_known [of t request impl ctx]
      by (simp add: DoGet_request del: FullMessageName.simps known_message_types.simps)
  next
    assume "request_tag r \<notin> set (known_kinds (entry_point r))"
    then have "type_tag (ticket request) \<notin> set (known_kinds EP_DoGet)"
      by (simp add: DoGet_request del: known_kinds.simps)
    then show "serve impl r = ([], Invalid ''The defined request is invalid.'', None)"
      using DoGet_unknown [of request impl ctx]
      by (simp add: DoGet_request del: known_kinds.simps)
  qed
next
  case (DoPut_request ctx reader)
  show ?thesis
  proof (intro conjI impI)
    assume "request_tag r \<in> set (known_kinds (entry_point r))"
    then have "type_tag (cmd (descriptor reader)) \<in> set (known_kinds EP_DoPut)"
      by (simp add: DoPut_request del: known_kinds.simps)
    then obtain t where "t \<in> set (known_message_types EP_DoPut)"
      and "type_tag (cmd (descriptor reader)) = FullMessageName t"
      using known_kinds_tag [of EP_DoPut] by blast
    then show "\<exists>c. serve impl r = ([c], impl c) \<and> handler_kind c = request_tag r \<and>
           handler_entry_point c = entry_point r"
      using DoPut_known [of t reader impl ctx]
      by (simp add: DoPut_request del: FullMessageName.simps known_message_types.simps)
  next
    assume "request_tag r \<notin> set (known_kinds (entry_point r))"
    then have "type_tag (cmd (descriptor reader)) \<notin> set (known_kinds EP_DoPut)"
      by (simp add: DoPut_request del: known_kinds.simps)
    then show "serve impl r = ([], Invalid ''The defined request is invalid.'', None)"
      using DoPut_unknown [of reader impl ctx]
      by (simp add: DoPut_request del: known_kinds.simps)
  qed
next
  case (DoAction_request ctx action)
  then show ?thesis
    using DoAction_known [of action impl ctx] DoAction_unknown [of action impl ctx]
    by (simp del: known_kinds.simps)
qed

text \<open>
  An instance of C2 on the base class: a GetFlightInfo request for the catalogs, and a
  DoAction request with a type name that is neither of the two known ones.
\<close>

theorem dispatch_total_and_exclusive_witness:
  "request_tag (GetFlightInfo_request (ServerCallContext '''')
       \<lparr>cmd = envelope CommandGetCatalogs ''''\<rparr>) \<in> set (known_kinds EP_GetFlightInfo) \<and>
   serve (FlightSqlServerBase :: unit Handlers)
     (GetFlightInfo_request (ServerCallContext '''') \<lparr>cmd = envelope CommandGetCatalogs ''''\<rparr>) =
     ([Call_GetFlightInfoCatalogs (ServerCallContext '''')
         \<lparr>cmd = envelope CommandGetCatalogs ''''\<rparr>],
      NotImplemented ''GetFlightInfoCatalogs not implemented'', None) \<and>
   request_tag (DoAction_request (ServerCallContext '''')
       \<lparr>type = ''DropPreparedStatement'', body = envelope ActionClosePreparedStatementRequest ''''\<rparr>)
     \<notin> set (known_kinds EP_DoAction) \<and>
   serve (FlightSqlServerBase :: unit Handlers)
     (DoAction_request (ServerCallContext '''')
       \<lparr>type = ''DropPreparedStatement'', body = envelope ActionClosePreparedStatementRequest ''''\<rparr>) =
     ([], Invalid ''The defined request is invalid.'', None)"
proof -
  let ?r1 = "GetFlightInfo_request (ServerCallContext '''')
       \<lparr>cmd = envelope CommandGetCatalogs ''''\<rparr>"
  let ?r2 = "DoAction_request (ServerCallContext '''')
       \<lparr>type = ''DropPreparedStatement'', body = envelope ActionClosePreparedStatementRequest ''''\<rparr>"
  have known: "request_tag ?r1 \<in> set (known_kinds (entry_point ?r1))"
    by (simp add: envelope_def del: FullMessageName.simps)
  have unknown: "request_tag ?r2 \<notin> set (known_kinds (entry_point ?r2))"
    by simp
  from dispatch_total_and_exclusive [of ?r1 "FlightSqlServerBase :: unit Handlers"] known
  obtain c where c: "serve (FlightSqlServerBase :: unit Handlers) ?r1 = ([c], FlightSqlServerBase c)"
    by blast
  have "fst (serve (FlightSqlServerBase :: unit Handlers) ?r1) =
      [Call_GetFlightInfoCatalogs (ServerCallContext '''') \<lparr>cmd = envelope CommandGetCatalogs ''''\<rparr>]"
    by (simp add: GetFlightInfo_envelope)
  with c have "c = Call_GetFlightInfoCatalogs (ServerCallContext '''')
      \<lparr>cmd = envelope CommandGetCatalogs ''''\<rparr>"
    by simp
  with c have first: "serve (FlightSqlServerBase :: unit Handlers) ?r1 =
     ([Call_GetFlightInfoCatalogs (ServerCallContext '''') \<lparr>cmd = envelope CommandGetCatalogs ''''\<rparr>],
      NotImplemented ''GetFlightInfoCatalogs not implemented'', None)"
    by (simp add: GetFlightInfoCatalogs_def)
  from dispatch_total_and_exclusive [of ?r2 "FlightSqlServerBase :: unit Handlers"] unknown
  have second: "serve (FlightSqlServerBase :: unit Handlers) ?r2 =
      ([], Invalid ''The defined request is invalid.'', None)"
    by blast
  from known unknown first second show ?thesis
    by (simp del: known_kinds.simps serve.simps request_tag.simps)
qed

subsection \<open>The default handlers\<close>

lemmas default_handler_defs =
  GetFlightInfoCatalogs_def DoGetCatalogs_def GetFlightInfoStatement_def
  DoGetStatement_def GetFlightInfoPreparedStatement_def DoGetPreparedStatement_def
  GetFlightInfoSqlInfo_def DoGetSqlInfo_def GetFlightInfoSchemas_def DoGetSchemas_def
  GetFlightInfoTables_def DoGetTables_def GetFlightInfoTableTypes_def DoGetTableTypes_def
  GetFlightInfoPrimaryKeys_def DoGetPrimaryKeys_def GetFlightInfoExportedKeys_def
  DoGetExportedKeys_def GetFlightInfoImportedKeys_def DoGetImportedKeys_def
  CreatePreparedStatement_def ClosePreparedStatement_def DoPutPreparedStatement_def
  DoPutCommandStatementUpdate_def

text \<open>
  C6. Every handler that the dispatcher can invoke has a default implementation in the
  base class, and for all arguments it returns the status NotImplemented (with the
  message "<handler> not implemented") and stores no result.
\<close>

theorem default_handlers_not_implemented:
  "FlightSqlServerBase c = (NotImplemented (handler_name c @ '' not implemented''), None)"
  by (cases c) (simp_all add: default_handler_defs)

subsection \<open>Routes of the command variants\<close>

text \<open>
  C3, as stated, fails: it is not the case that every command variant has one and only
  one dispatch branch on the server. An envelope tagged \<open>CommandGetCrossReference\<close> is
  routed by no branch of any entry point, one tagged \<open>CommandPreparedStatementQuery\<close>
  by three (one in each of GetFlightInfo, DoGet and DoPut), and one tagged
  \<open>CommandGetCatalogs\<close> by two.
\<close>

theorem variant_branch_count_counterexample:
  "dispatch_branches (FlightSqlServerBase :: unit Handlers) (ServerCallContext '''')
     (envelope CommandGetCrossReference '''') = [] \<and>
   map handler_name
     (dispatch_branches (FlightSqlServerBase :: unit Handlers) (ServerCallContext '''')
        (envelope CommandPreparedStatementQuery '''')) =
     [''GetFlightInfoPreparedStatement'', ''DoGetPreparedStatement'', ''DoPutPreparedStatement''] \<and>
   map handler_name
     (dispatch_branches (FlightSqlServerBase :: unit Handlers) (ServerCallContext '''')
        (envelope CommandGetCatalogs '''')) =
     [''GetFlightInfoCatalogs'', ''DoGetCatalogs'']"
  by (simp add: dispatch_branches_def GetFlightInfo_envelope DoGet_envelope DoPut_envelope)

text \<open>
  C3, amended. Whatever the backend and the call context: each entry point (GetFlightInfo,
  DoGet, DoPut, DoAction) routes any request through at most one branch to one handler.
  Whatever the payload, every command variant that the server dispatches is routed as
  follows, entry point by entry point. A statement query goes to GetFlightInfoStatement
  in GetFlightInfo and nowhere else, a statement update to DoPutCommandStatementUpdate in
  DoPut and nowhere else, a statement ticket to DoGetStatement in DoGet and nowhere
  else; a prepared-statement query goes to one handler in each of GetFlightInfo, DoGet
  and DoPut; each of the eight metadata commands (catalogs, schemas, tables, table
  types, SQL info, primary keys, exported keys, imported keys) goes to its GetFlightInfo
  handler in GetFlightInfo, to its DoGet handler in DoGet, and to none in DoPut; the
  creation and the closing of a prepared statement are selected by DoAction on the
  action's type name, whatever the type tag of the body.
\<close>

theorem variant_routes:
  "length (fst (GetFlightInfo impl context request)) \<le> 1 \<and>
   length (fst (DoGet impl context ticket_request)) \<le> 1 \<and>
   length (fst (DoPut impl context reader)) \<le> 1 \<and>
   length (fst (DoAction impl context action)) \<le> 1 \<and>
   entry_point_routes impl context (envelope CommandStatementQuery p) =
     ([''GetFlightInfoStatement''], [], []) \<and>
   entry_point_routes impl context (envelope CommandPreparedStatementQuery p) =
     ([''GetFlightInfoPreparedStatement''], [''DoGetPreparedStatement''],
      [''DoPutPreparedStatement'']) \<and>
   entry_point_routes impl context (envelope CommandStatementUpdate p) =
     ([], [], [''DoPutCommandStatementUpdate'']) \<and>
   entry_point_routes impl context (envelope TicketStatementQuery p) =
     ([], [''DoGetStatement''], []) \<and>
   entry_point_routes impl context (envelope CommandGetCatalogs p) =
     ([''GetFlightInfoCatalogs''], [''DoGetCatalogs''], []) \<and>
   entry_point_routes impl context (envelope CommandGetSchemas p) =
     ([''GetFlightInfoSchemas''], [''DoGetSchemas''], []) \<and>
   entry_point_routes impl context (envelope CommandGetTables p) =
     ([''GetFlightInfoTables''], [''DoGetTables''], []) \<and>
   entry_point_routes impl context (envelope CommandGetTableTypes p) =
     ([''GetFlightInfoTableTypes''], [''DoGetTableTypes''], []) \<and>
   entry_point_routes impl context (envelope CommandGetSqlInfo p) =
     ([''GetFlightInfoSqlInfo''], [''DoGetSqlInfo''], []) \<and>
   entry_point_routes impl context (envelope CommandGetPrimaryKeys p) =
     ([''GetFlightInfoPrimaryKeys''], [''DoGetPrimaryKeys''], []) \<and>
   entry_point_routes impl context (envelope CommandGetExportedKeys p) =
     ([''GetFlightInfoExportedKeys''], [''DoGetExportedKeys''], []) \<and>
   entry_point_routes impl context (envelope CommandGetImportedKeys p) =
     ([''GetFlightInfoImportedKeys''], [''DoGetImportedKeys''], []) \<and>
   map handler_name
     (fst (DoAction impl context \<lparr>type = ''CreatePreparedStatement'', body = any\<rparr>)) =
     [''CreatePreparedStatement''] \<and>
   map handler_name
     (fst (DoAction impl context \<lparr>type = ''ClosePreparedStatement'', body = any\<rparr>)) =
     [''ClosePreparedStatement'']"
  using GetFlightInfo_at_most_one [of impl "context" request]
    DoGet_at_most_one [of impl "context" ticket_request]
    DoPut_at_most_one [of impl "context" reader]
    DoAction_at_most_one [of impl "context" action]
  by (simp add: entry_point_routes_envelope DoAction_def invoke_def Let_def
      FLIGHT_SQL_CREATE_PREPARED_STATEMENT_def FLIGHT_SQL_CLOSE_PREPARED_STATEMENT_def)

text \<open>
  C10, as stated, fails for GetFlightInfo: the catalogs handler is given the request
  descriptor, which holds the payload. Two requests with the tag of
  \<open>CommandGetCatalogs\<close> and different payloads (none, and the bytes \<open>08 01\<close>) lead to
  calls of GetFlightInfoCatalogs with different arguments.
\<close>

theorem catalogs_request_reaches_handler_counterexample:
  "fst (GetFlightInfo (FlightSqlServerBase :: unit Handlers) (ServerCallContext '''')
          \<lparr>cmd = envelope CommandGetCatalogs ''''\<rparr>) =
     [Call_GetFlightInfoCatalogs (ServerCallContext '''')
        \<lparr>cmd = envelope CommandGetCatalogs ''''\<rparr>] \<and>
   fst (GetFlightInfo (FlightSqlServerBase :: unit Handlers) (ServerCallContext '''')
          \<lparr>cmd = envelope CommandGetCatalogs [CHR 0x08, CHR 0x01]\<rparr>) =
     [Call_GetFlightInfoCatalogs (ServerCallContext '''')
        \<lparr>cmd = envelope CommandGetCatalogs [CHR 0x08, CHR 0x01]\<rparr>] \<and>
   fst (GetFlightInfo (FlightSqlServerBase :: unit Handlers) (ServerCallContext '''')
          \<lparr>cmd = envelope CommandGetCatalogs ''''\<rparr>) \<noteq>
   fst (GetFlightInfo (FlightSqlServerBase :: unit Handlers) (ServerCallContext '''')
          \<lparr>cmd = envelope CommandGetCatalogs [CHR 0x08, CHR 0x01]\<rparr>)"
  unfolding GetFlightInfo_envelope by (simp add: envelope_def)

text \<open>
  C10, amended. For the tags of \<open>CommandGetCatalogs\<close> and \<open>CommandGetTableTypes\<close> the
  dispatcher never passes the decoded command to the handler. DoGet invokes
  DoGetCatalogs, or DoGetTableTypes, with the call context alone: for any two tickets
  with the same one of these tags, the handler call is the same whatever the payloads.
  GetFlightInfo invokes GetFlightInfoCatalogs, or GetFlightInfoTableTypes, with the call
  context and the request descriptor itself, unchanged.
\<close>

theorem catalogs_and_table_types_handler_arguments:
  "DoGet impl context \<lparr>ticket = envelope CommandGetCatalogs p\<rparr> =
     invoke impl (Call_DoGetCatalogs context) \<and>
   DoGet impl context \<lparr>ticket = envelope CommandGetTableTypes p\<rparr> =
     invoke impl (Call_DoGetTableTypes context) \<and>
   GetFlightInfo impl context \<lparr>cmd = envelope CommandGetCatalogs p\<rparr> =
     invoke impl (Call_GetFlightInfoCatalogs context \<lparr>cmd = envelope CommandGetCatalogs p\<rparr>) \<and>
   GetFlightInfo impl context \<lparr>cmd = envelope CommandGetTableTypes p\<rparr> =
     invoke impl (Call_GetFlightInfoTableTypes context \<lparr>cmd = envelope CommandGetTableTypes p\<rparr>)"
  by (simp add: DoGet_def GetFlightInfo_def Let_def Is_envelope)

section \<open>Properties of the client operations\<close>

text \<open>
  The type tag survives \<^verbatim>\<open>getDescriptor\<close>: the server recognises the envelope of a
  message as being of the type of that message, and of no other. What the payload
  decodes to is up to the serializer and the parser.
\<close>

lemma getDescriptor_tag: "Is (cmd (getDescriptor codec command)) T = (T = GetTypeName command)"
  by (auto simp add: getDescriptor_def PackFrom_def Is_def FullMessageName_inject
      simp del: FullMessageName.simps)

lemma push_update_result:
  assumes "client_DoPut client d batches = Inr (Inr buffer)"
    and "ParseFromString codec DoPutUpdateResult buffer = Some (Msg_DoPutUpdateResult n)"
  shows "push_update codec client d batches = ([DoPut_call d batches], Inr n)"
  using assms by (simp add: push_update_def decode_update_result_def)

text \<open>
  C7. When the push-data call of ExecuteUpdate, or of ExecuteUpdate on a prepared
  statement, succeeds and its metadata reader delivers a buffer that parses as an update
  result with record count \<open>n\<close>, the operation returns exactly \<open>n\<close>, for every 64-bit
  \<open>n\<close>; the statement form makes exactly one transport call, the push.
\<close>

theorem execute_update_returns_record_count:
  assumes "ParseFromString codec DoPutUpdateResult buffer = Some (Msg_DoPutUpdateResult n)"
  shows "(client_DoPut client (getDescriptor codec (Msg_CommandStatementUpdate query)) [] =
            Inr (Inr buffer) \<longrightarrow>
          ExecuteUpdate codec client query =
            ([DoPut_call (getDescriptor codec (Msg_CommandStatementUpdate query)) []], Inr n)) \<and>
         (client_DoPut client
            (getDescriptor codec
               (Msg_CommandPreparedStatementQuery (prepared_statement_handle statement)))
            (case parameter_binding statement of None \<Rightarrow> [] | Some batch \<Rightarrow> [batch]) =
            Inr (Inr buffer) \<longrightarrow>
          snd (PreparedStatement_ExecuteUpdate codec client statement) = Inr n)"
  using assms
  by (simp add: ExecuteUpdate_def PreparedStatement_ExecuteUpdate_def push_update_result)

text \<open>
  C7 at the values of the tests: the mocked transport delivers the update result with
  record count 100, and both operations return 100.
\<close>

theorem execute_update_returns_record_count_witness:
  "ParseFromString codec_mock DoPutUpdateResult [CHR 0x08, CHR 0x64] =
     Some (Msg_DoPutUpdateResult 100) \<and>
   client_DoPut (client_mock [CHR 0x08, CHR 0x64])
     (getDescriptor codec_mock (Msg_CommandStatementUpdate ''query'')) [] =
     Inr (Inr [CHR 0x08, CHR 0x64]) \<and>
   ExecuteUpdate codec_mock (client_mock [CHR 0x08, CHR 0x64]) ''query'' =
     ([DoPut_call (getDescriptor codec_mock (Msg_CommandStatementUpdate ''query'')) []], Inr 100) \<and>
   snd (PreparedStatement_ExecuteUpdate codec_mock (client_mock [CHR 0x08, CHR 0x64])
          \<lparr>prepared_statement_handle = ''SELECT * FROM IRRELEVANT'', parameter_binding = None\<rparr>) =
     Inr 100"
proof -
  have parsed: "ParseFromString codec_mock DoPutUpdateResult [CHR 0x08, CHR 0x64] =
      Some (Msg_DoPutUpdateResult 100)"
    by (simp add: codec_mock_def)
  have pushed: "client_DoPut (client_mock [CHR 0x08, CHR 0x64]) d batches =
      Inr (Inr [CHR 0x08, CHR 0x64])" for d batches
    by (simp add: client_mock_def FlightMetadataReaderMock_def)
  from execute_update_returns_record_count [OF parsed, of "client_mock [CHR 0x08, CHR 0x64]"
      "''query''" "\<lparr>prepared_statement_handle = ''SELECT * FROM IRRELEVANT'', parameter_binding = None\<rparr>"]
    parsed pushed
  show ?thesis by simp
qed

text \<open>
  C8. Execute on a prepared statement in which SetParameters stored a batch makes
  exactly one push-data call, carrying that batch and the prepared-statement command,
  and makes it first: when the push succeeds, the one get-info call follows it and
  nothing else is called; when the push fails, its status is returned and no get-info
  call is made. With no batch stored, Execute makes no push-data call: its only call is
  the get-info call.
\<close>

theorem execute_pushes_parameters_before_get_info:
  assumes "d = getDescriptor codec
      (Msg_CommandPreparedStatementQuery (prepared_statement_handle statement))"
  shows "(client_DoPut client d [batch] = Inr reader \<longrightarrow>
            fst (PreparedStatement_Execute codec client (SetParameters batch statement)) =
              [DoPut_call d [batch], GetFlightInfo_call d]) \<and>
         (client_DoPut client d [batch] = Inl status \<longrightarrow>
            PreparedStatement_Execute codec client (SetParameters batch statement) =
              ([DoPut_call d [batch]], Inl status)) \<and>
         (parameter_binding statement = None \<longrightarrow>
            fst (PreparedStatement_Execute codec client statement) = [GetFlightInfo_call d])"
  using assms
  by (simp add: PreparedStatement_Execute_def SetParameters_def Let_def)

text \<open>
  C8 at the values of \<^verbatim>\<open>TestPreparedStatementExecuteParameterBinding\<close>: a one-row batch
  of schema \<open>{id: int64}\<close> bound to the statement with handle "query", over the mocked
  transport; and the same statement with nothing bound.
\<close>

theorem execute_pushes_parameters_before_get_info_witness:
  "fst (PreparedStatement_Execute codec_mock (client_mock [])
          (SetParameters \<lparr>batch_schema = [field ''id'' int64 nullable_default], num_rows = 1\<rparr>
             \<lparr>prepared_statement_handle = ''query'', parameter_binding = None\<rparr>)) =
     [DoPut_call (getDescriptor codec_mock (Msg_CommandPreparedStatementQuery ''query''))
        [\<lparr>batch_schema = [field ''id'' int64 nullable_default], num_rows = 1\<rparr>],
      GetFlightInfo_call (getDescriptor codec_mock (Msg_CommandPreparedStatementQuery ''query''))] \<and>
   fst (PreparedStatement_Execute codec_mock (client_mock [])
          \<lparr>prepared_statement_handle = ''query'', parameter_binding = None\<rparr>) =
     [GetFlightInfo_call (getDescriptor codec_mock (Msg_CommandPreparedStatementQuery ''query''))]"
proof -
  let ?statement = "\<lparr>prepared_statement_handle = ''query'', parameter_binding = None\<rparr>"
  let ?batch = "\<lparr>batch_schema = [field ''id'' int64 nullable_default], num_rows = 1\<rparr>"
  let ?d = "getDescriptor codec_mock (Msg_CommandPreparedStatementQuery ''query'')"
  have d: "?d = getDescriptor codec_mock
      (Msg_CommandPreparedStatementQuery (prepared_statement_handle ?statement))"
    by simp
  have pushed: "client_DoPut (client_mock []) ?d [?batch] = Inr (FlightMetadataReaderMock [])"
    by (simp add: client_mock_def)
  have unbound: "parameter_binding ?statement = None"
    by simp
  from execute_pushes_parameters_before_get_info [OF d, of "client_mock []" ?batch
      "FlightMetadataReaderMock []"] pushed unbound
  show ?thesis by blast
qed

end
